theory Spec2Isabelle
  imports Complex_Main
begin

section \<open>JavaScript numbers\<close>

text \<open>
  The component computes with JavaScript \<^verbatim>\<open>number\<close>s. The model keeps the three
  special values a division or a remainder can produce (\<^verbatim>\<open>Infinity\<close>,
  \<^verbatim>\<open>-Infinity\<close>, \<^verbatim>\<open>NaN\<close>) and takes \<^verbatim>\<open>+\<close>, \<^verbatim>\<open>-\<close>, \<^verbatim>\<open>*\<close>, \<^verbatim>\<open>/\<close> and \<^verbatim>\<open>%\<close> on
  finite values to be exact: rounding to 53 bits, overflow and the sign of zero are not
  modelled. \<^verbatim>\<open>Math.exp\<close> comes in two versions, the exact one and one with the
  underflow and overflow of binary64.
\<close>

datatype jsnum = Fin real | PInf | NInf | NaN

fun js_neg :: "jsnum \<Rightarrow> jsnum" where
  "js_neg (Fin a) = Fin (- a)"
| "js_neg PInf = NInf"
| "js_neg NInf = PInf"
| "js_neg NaN = NaN"

fun js_add :: "jsnum \<Rightarrow> jsnum \<Rightarrow> jsnum" where
  "js_add NaN _ = NaN"
| "js_add _ NaN = NaN"
| "js_add (Fin a) (Fin b) = Fin (a + b)"
| "js_add PInf NInf = NaN"
| "js_add NInf PInf = NaN"
| "js_add PInf _ = PInf"
| "js_add _ PInf = PInf"
| "js_add NInf _ = NInf"
| "js_add _ NInf = NInf"

definition js_sub :: "jsnum \<Rightarrow> jsnum \<Rightarrow> jsnum" where
  "js_sub a b = js_add a (js_neg b)"

fun js_mul :: "jsnum \<Rightarrow> jsnum \<Rightarrow> jsnum" where
  "js_mul NaN _ = NaN"
| "js_mul _ NaN = NaN"
| "js_mul (Fin a) (Fin b) = Fin (a * b)"
| "js_mul (Fin a) PInf = (if a = 0 then NaN else if 0 < a then PInf else NInf)"
| "js_mul (Fin a) NInf = (if a = 0 then NaN else if 0 < a then NInf else PInf)"
| "js_mul PInf (Fin b) = (if b = 0 then NaN else if 0 < b then PInf else NInf)"
| "js_mul NInf (Fin b) = (if b = 0 then NaN else if 0 < b then NInf else PInf)"
| "js_mul PInf PInf = PInf"
| "js_mul NInf NInf = PInf"
| "js_mul PInf NInf = NInf"
| "js_mul NInf PInf = NInf"

text \<open>
  Division never fails in JavaScript: a non-zero finite number divided by zero is an
  infinity, and \<^verbatim>\<open>0 / 0\<close> is \<^verbatim>\<open>NaN\<close>. The zero divisor is read as \<^verbatim>\<open>+0\<close>.
\<close>

fun js_div :: "jsnum \<Rightarrow> jsnum \<Rightarrow> jsnum" where
  "js_div NaN _ = NaN"
| "js_div _ NaN = NaN"
| "js_div (Fin a) (Fin b) =
     (if b = 0 then (if a = 0 then NaN else if 0 < a then PInf else NInf)
      else Fin (a / b))"
| "js_div (Fin a) PInf = Fin 0"
| "js_div (Fin a) NInf = Fin 0"
| "js_div PInf (Fin b) = (if 0 \<le> b then PInf else NInf)"
| "js_div NInf (Fin b) = (if 0 \<le> b then NInf else PInf)"
| "js_div PInf PInf = NaN"
| "js_div PInf NInf = NaN"
| "js_div NInf PInf = NaN"
| "js_div NInf NInf = NaN"

text \<open>\<^verbatim>\<open>Math.exp\<close>.\<close>

fun js_exp :: "jsnum \<Rightarrow> jsnum" where
  "js_exp (Fin a) = Fin (exp a)"
| "js_exp PInf = PInf"
| "js_exp NInf = Fin 0"
| "js_exp NaN = NaN"

text \<open>
  \<^verbatim>\<open>Math.exp\<close> is implementation-approximated. \<^const>\<open>js_exp\<close> above is the exact
  exponential. \<open>js_exp64\<close> adds the range of binary64: the result is exactly 0 for
  an argument below -746 (the true value is then under half the least subnormal) and
  \<^verbatim>\<open>Infinity\<close> for an argument above 710 (beyond the largest double); in
  between it is taken exact.
\<close>

fun js_exp64 :: "jsnum \<Rightarrow> jsnum" where
  "js_exp64 (Fin a) = (if a < - 746 then Fin 0 else if 710 < a then PInf else Fin (exp a))"
| "js_exp64 PInf = PInf"
| "js_exp64 NInf = Fin 0"
| "js_exp64 NaN = NaN"

text \<open>\<^verbatim>\<open>Number.isFinite\<close>.\<close>

fun isFinite :: "jsnum \<Rightarrow> bool" where
  "isFinite (Fin a) = True"
| "isFinite PInf = False"
| "isFinite NInf = False"
| "isFinite NaN = False"

text \<open>The comparison \<^verbatim>\<open><\<close>: false as soon as one side is \<^verbatim>\<open>NaN\<close>.\<close>

fun js_lt :: "jsnum \<Rightarrow> jsnum \<Rightarrow> bool" where
  "js_lt NaN _ = False"
| "js_lt _ NaN = False"
| "js_lt (Fin a) (Fin b) = (a < b)"
| "js_lt _ NInf = False"
| "js_lt PInf _ = False"
| "js_lt NInf _ = True"
| "js_lt _ PInf = True"

text \<open>The comparison \<^verbatim>\<open><=\<close>, false on \<^verbatim>\<open>NaN\<close> as well.\<close>

fun js_le :: "jsnum \<Rightarrow> jsnum \<Rightarrow> bool" where
  "js_le NaN _ = False"
| "js_le _ NaN = False"
| "js_le (Fin a) (Fin b) = (a \<le> b)"
| "js_le NInf _ = True"
| "js_le _ PInf = True"
| "js_le _ _ = False"

text \<open>\<^verbatim>\<open>Math.min\<close> of two arguments: \<^verbatim>\<open>NaN\<close> if either is, the smaller otherwise.\<close>

definition js_min :: "jsnum \<Rightarrow> jsnum \<Rightarrow> jsnum" where
  "js_min a b = (if a = NaN \<or> b = NaN then NaN else if js_lt a b then a else b)"

text \<open>
  The remainder \<^verbatim>\<open>%\<close> truncates the quotient towards zero, so the result has the
  sign of the dividend.
\<close>

definition trunc :: "real \<Rightarrow> int" where
  "trunc x = (if 0 \<le> x then \<lfloor>x\<rfloor> else \<lceil>x\<rceil>)"

fun js_rem :: "jsnum \<Rightarrow> jsnum \<Rightarrow> jsnum" where
  "js_rem NaN _ = NaN"
| "js_rem _ NaN = NaN"
| "js_rem PInf _ = NaN"
| "js_rem NInf _ = NaN"
| "js_rem (Fin a) PInf = Fin a"
| "js_rem (Fin a) NInf = Fin a"
| "js_rem (Fin a) (Fin b) =
     (if b = 0 then NaN else Fin (a - b * of_int (trunc (a / b))))"


section \<open>The circuit model\<close>

text \<open>\<^verbatim>\<open>CircuitMode\<close> of \<^verbatim>\<open>types.ts\<close>: \<^verbatim>\<open>'series' | 'parallel' | 'rc-delay'\<close>.\<close>

datatype CircuitMode = Series | Parallel | RcDelay

text \<open>
  \<^verbatim>\<open>interface CircuitState\<close> of \<^verbatim>\<open>types.ts\<close>: one boolean and four numbers.
\<close>

record CircuitState =
  isSwitchClosed :: bool
  voltage :: jsnum
  resistance1 :: jsnum
  resistance2 :: jsnum
  capacitance :: jsnum

text \<open>
  The three local variables of \<^verbatim>\<open>CircuitCanvas\<close> that hold the derived electrical
  quantities. All three start at 0 and are assigned in the branch of the selected mode.
\<close>

record Derived =
  current :: jsnum
  bulb1Brightness :: jsnum
  bulb2Brightness :: jsnum

text \<open>
  The names in scope in the body of \<^verbatim>\<open>CircuitCanvas\<close>: the three props and the
  value of the \<^verbatim>\<open>offset\<close> hook, which is declared before the physics block.
\<close>

record Scope =
  scope_mode :: CircuitMode
  scope_state :: CircuitState
  scope_simTime :: jsnum
  scope_offset :: jsnum

text \<open>
  The physics block at the head of \<^verbatim>\<open>CircuitCanvas\<close>, with the same local names,
  over the implementation \<open>mexp\<close> of \<^verbatim>\<open>Math.exp\<close>. \<^verbatim>\<open>1e-6\<close> is the exact rational.
\<close>

definition physicsBlock :: "(jsnum \<Rightarrow> jsnum) \<Rightarrow> Scope \<Rightarrow> Derived" where
  "physicsBlock mexp sc =
     (let mode = scope_mode sc; state = scope_state sc; simTime = scope_simTime sc in
      if isSwitchClosed state then
        (case mode of
           Series \<Rightarrow>
             (let Req = js_add (resistance1 state) (resistance2 state);
                  cur = js_div (voltage state) Req
              in \<lparr>current = cur,
                  bulb1Brightness = js_div (js_mul cur (resistance1 state)) (Fin 10),
                  bulb2Brightness = js_div (js_mul cur (resistance2 state)) (Fin 10)\<rparr>)
         | Parallel \<Rightarrow>
             (let I1 = js_div (voltage state) (resistance1 state);
                  I2 = js_div (voltage state) (resistance2 state)
              in \<lparr>current = js_add I1 I2,
                  bulb1Brightness = js_div I1 (Fin 5),
                  bulb2Brightness = js_div I2 (Fin 5)\<rparr>)
         | RcDelay \<Rightarrow>
             (let R = resistance1 state;
                  C = js_mul (capacitance state) (Fin (1 / 10 ^ 6));
                  tau = js_mul R C;
                  instantaneousCurrent =
                    js_mul (js_div (voltage state) R)
                           (mexp (js_div (js_neg simTime) tau))
              in \<lparr>current = instantaneousCurrent,
                  bulb1Brightness = js_mul instantaneousCurrent (Fin 5),
                  bulb2Brightness = Fin 0\<rparr>))
      else \<lparr>current = Fin 0, bulb1Brightness = Fin 0, bulb2Brightness = Fin 0\<rparr>)"

text \<open>
  The capacitor voltage of the rc-delay diagram, the number that is then formatted with
  \<^verbatim>\<open>toFixed(1)\<close>. It is recomputed from the props and is not gated by the switch.
\<close>

definition capacitorVoltageExpr :: "(jsnum \<Rightarrow> jsnum) \<Rightarrow> Scope \<Rightarrow> jsnum" where
  "capacitorVoltageExpr mexp sc =
     (let state = scope_state sc; simTime = scope_simTime sc in
      js_mul (voltage state)
        (js_sub (Fin 1)
           (mexp (js_div (js_neg simTime)
              (js_mul (js_mul (resistance1 state) (capacitance state))
                      (Fin (1 / 10 ^ 6)))))))"

text \<open>
  The derived quantities and the capacitor voltage as functions of the props, read off
  the first render (\<^verbatim>\<open>useState(0)\<close>): over any \<^verbatim>\<open>Math.exp\<close>, and with the exact
  exponential.
\<close>

definition physics_with ::
  "(jsnum \<Rightarrow> jsnum) \<Rightarrow> CircuitMode \<Rightarrow> CircuitState \<Rightarrow> jsnum \<Rightarrow> Derived" where
  "physics_with mexp mode state simTime =
     physicsBlock mexp \<lparr>scope_mode = mode, scope_state = state,
                        scope_simTime = simTime, scope_offset = Fin 0\<rparr>"

definition physics :: "CircuitMode \<Rightarrow> CircuitState \<Rightarrow> jsnum \<Rightarrow> Derived" where
  "physics = physics_with js_exp"

definition capacitorVoltage :: "CircuitState \<Rightarrow> jsnum \<Rightarrow> jsnum" where
  "capacitorVoltage state simTime =
     capacitorVoltageExpr js_exp \<lparr>scope_mode = RcDelay, scope_state = state,
                                  scope_simTime = simTime, scope_offset = Fin 0\<rparr>"


section \<open>The animation driver\<close>

text \<open>
  The body of \<^verbatim>\<open>animate\<close>. The closure reads \<^verbatim>\<open>state.isSwitchClosed\<close> and the
  \<^verbatim>\<open>current\<close> of the render that started the effect.
\<close>

definition speed :: "CircuitState \<Rightarrow> jsnum \<Rightarrow> jsnum" where
  "speed state cur =
     (if isSwitchClosed state then js_min (js_mul cur (Fin 2)) (Fin 10) else Fin 0)"

text \<open>The updater passed to \<^verbatim>\<open>setOffset\<close>: \<^verbatim>\<open>prev => (prev - speed) % 1000\<close>.\<close>

definition animate :: "CircuitState \<Rightarrow> jsnum \<Rightarrow> jsnum \<Rightarrow> jsnum" where
  "animate state cur prev = js_rem (js_sub prev (speed state cur)) (Fin 1000)"

text \<open>
  A display frame runs \<^verbatim>\<open>animate\<close> of the latest render, which is fixed by that
  render's props. A run of the driver is the list of the props in force at each frame;
  the offset starts at \<^verbatim>\<open>useState(0)\<close>.
\<close>

type_synonym props = "CircuitMode \<times> CircuitState \<times> jsnum"

fun frameSpeed :: "props \<Rightarrow> jsnum" where
  "frameSpeed (mode, state, simTime) = speed state (current (physics mode state simTime))"

fun frames :: "jsnum \<Rightarrow> props list \<Rightarrow> jsnum" where
  "frames offset [] = offset"
| "frames offset ((mode, state, simTime) # ps) =
     frames (animate state (current (physics mode state simTime)) offset) ps"

text \<open>
  The InvalidConfiguration condition of the specification's error taxonomy, in the
  specification's words: a resistance or the capacitance at most 0, or a negative
  voltage.
\<close>

definition InvalidConfiguration :: "CircuitState \<Rightarrow> bool" where
  "InvalidConfiguration state =
     (js_le (resistance1 state) (Fin 0) \<or> js_le (resistance2 state) (Fin 0)
      \<or> js_le (capacitance state) (Fin 0) \<or> js_lt (voltage state) (Fin 0))"

text \<open>
  A magnitude at which the quotients and products of the physics block stay well inside
  the range of binary64, so that none of them overflows or underflows.
\<close>

definition moderate :: "real \<Rightarrow> bool" where
  "moderate x = (1 / 10 ^ 100 \<le> x \<and> x \<le> 10 ^ 100)"

text \<open>The configurations of the three scenarios of the specification.\<close>

definition scenarioA :: CircuitState where
  "scenarioA = \<lparr>isSwitchClosed = True, voltage = Fin 9, resistance1 = Fin 100,
                 resistance2 = Fin 200, capacitance = Fin 100\<rparr>"

definition scenarioB :: CircuitState where
  "scenarioB = \<lparr>isSwitchClosed = True, voltage = Fin 5, resistance1 = Fin 10,
                 resistance2 = Fin 20, capacitance = Fin 100\<rparr>"

definition scenarioC :: CircuitState where
  "scenarioC = \<lparr>isSwitchClosed = True, voltage = Fin 10, resistance1 = Fin 1000,
                 resistance2 = Fin 1000, capacitance = Fin 100\<rparr>"


section \<open>Series and parallel circuits\<close>

text \<open>
  C1. Series topology, switch closed, voltage and both resistances positive: for every
  elapsed time (finite or not) the current is \<open>V / (R1 + R2)\<close> and the two brightness
  values are \<open>current * R1 / 10\<close> and \<open>current * R2 / 10\<close>. Scenario A of the
  specification (V = 9, R1 = 100, R2 = 200) is the instance proved right after.
\<close>

theorem series_law:
  assumes "isSwitchClosed state"
    and "voltage state = Fin v" and "0 < v"
    and "resistance1 state = Fin r1" and "0 < r1"
    and "resistance2 state = Fin r2" and "0 < r2"
  shows "physics Series state simTime =
           \<lparr>current = Fin (v / (r1 + r2)),
            bulb1Brightness = Fin ((v / (r1 + r2)) * r1 / 10),
            bulb2Brightness = Fin ((v / (r1 + r2)) * r2 / 10)\<rparr>"
  using assms by (simp add: physics_def physics_with_def physicsBlock_def Let_def)

theorem series_scenario_A:
  "physics Series scenarioA (Fin 0)
   = \<lparr>current = Fin (3 / 100), bulb1Brightness = Fin (3 / 10),
      bulb2Brightness = Fin (6 / 10)\<rparr>"
  using series_law [of scenarioA 9 100 200 "Fin 0"]
  by (simp add: scenarioA_def)

text \<open>
  C2. Parallel topology, switch closed, voltage and both resistances positive: for every
  elapsed time the branch currents are \<open>I1 = V / R1\<close> and \<open>I2 = V / R2\<close>, the total
  current is \<open>I1 + I2\<close> and the brightness values are \<open>I1 / 5\<close> and \<open>I2 / 5\<close>.
  Scenario B (V = 5, R1 = 10, R2 = 20) is the instance proved right after.
\<close>

theorem parallel_law:
  assumes "isSwitchClosed state"
    and "voltage state = Fin v" and "0 < v"
    and "resistance1 state = Fin r1" and "0 < r1"
    and "resistance2 state = Fin r2" and "0 < r2"
  shows "physics Parallel state simTime =
           \<lparr>current = Fin (v / r1 + v / r2),
            bulb1Brightness = Fin ((v / r1) / 5),
            bulb2Brightness = Fin ((v / r2) / 5)\<rparr>"
  using assms by (simp add: physics_def physics_with_def physicsBlock_def Let_def)

theorem parallel_scenario_B:
  "physics Parallel scenarioB (Fin 0)
   = \<lparr>current = Fin (75 / 100), bulb1Brightness = Fin (1 / 10),
      bulb2Brightness = Fin (5 / 100)\<rparr>"
  using parallel_law [of scenarioB 5 10 20 "Fin 0"]
  by (simp add: scenarioB_def)


section \<open>The open switch\<close>

text \<open>
  C4. With the switch open the current and both brightness values are 0, for every
  topology, every configuration (valid or not) and every elapsed time.
\<close>

theorem open_switch_zero:
  assumes "\<not> isSwitchClosed state"
  shows "physics mode state simTime =
           \<lparr>current = Fin 0, bulb1Brightness = Fin 0, bulb2Brightness = Fin 0\<rparr>"
  using assms by (simp add: physics_def physics_with_def physicsBlock_def)

theorem open_switch_zero_witness:
  "physics RcDelay (scenarioC\<lparr>isSwitchClosed := False\<rparr>) (Fin (1 / 10)) =
     \<lparr>current = Fin 0, bulb1Brightness = Fin 0, bulb2Brightness = Fin 0\<rparr>"
  using open_switch_zero [of "scenarioC\<lparr>isSwitchClosed := False\<rparr>" RcDelay "Fin (1 / 10)"]
  by (simp add: scenarioC_def)


section \<open>The speed of a frame\<close>

text \<open>
  C6. The speed of a frame is \<open>min (current * 2) 10\<close> with the switch closed and 0 with
  it open. Whatever the current (finite, infinite or \<^verbatim>\<open>NaN\<close>), the speed is never
  greater than 10: it is \<^verbatim>\<open>NaN\<close> (which compares greater than nothing) or at most
  10. With the switch open it is exactly 0.
\<close>

theorem speed_cap:
  "speed state cur =
     (if isSwitchClosed state then js_min (js_mul cur (Fin 2)) (Fin 10) else Fin 0)
   \<and> \<not> js_lt (Fin 10) (speed state cur)
   \<and> (speed state cur = NaN \<or> js_le (speed state cur) (Fin 10))
   \<and> speed (state\<lparr>isSwitchClosed := False\<rparr>) cur = Fin 0"
  by (cases cur) (auto simp: speed_def js_min_def)

lemma speed_examples:
  "speed scenarioA (Fin 3) = Fin 6"
  "speed scenarioA (Fin 1000000) = Fin 10"
  "speed scenarioA PInf = Fin 10"
  "speed scenarioA NaN = NaN"
  by (simp_all add: speed_def js_min_def scenarioA_def)


section \<open>The rc-delay circuit\<close>

text \<open>
  C3. rc-delay topology, switch closed, voltage, resistance1 and capacitance positive,
  elapsed time \<open>t \<ge> 0\<close>: with \<open>tau = R1 * (capacitance * 1e-6)\<close> the current is
  \<open>(V / R1) * exp (- t / tau)\<close>, brightness1 is \<open>current * 5\<close>, and the capacitor
  voltage shown in the diagram is \<open>V * (1 - exp (- t / tau))\<close>. Scenario C
  (V = 10, R1 = 1000, capacitance = 100, t = 0.1, hence tau = 0.1) is the instance
  proved right after.
\<close>

theorem rc_law:
  assumes "isSwitchClosed state"
    and "voltage state = Fin v" and "0 < v"
    and "resistance1 state = Fin r" and "0 < r"
    and "capacitance state = Fin c" and "0 < c"
    and "0 \<le> t"
  shows "physics RcDelay state (Fin t) =
           \<lparr>current = Fin ((v / r) * exp (- t / (r * (c * (1 / 10 ^ 6))))),
            bulb1Brightness = Fin ((v / r) * exp (- t / (r * (c * (1 / 10 ^ 6)))) * 5),
            bulb2Brightness = Fin 0\<rparr>
       \<and> capacitorVoltage state (Fin t) =
            Fin (v * (1 - exp (- t / (r * (c * (1 / 10 ^ 6))))))"
  using assms
  by (simp add: physics_def physics_with_def physicsBlock_def capacitorVoltage_def capacitorVoltageExpr_def js_sub_def Let_def mult.assoc)

theorem rc_scenario_C:
  "physics RcDelay scenarioC (Fin (1 / 10)) =
     \<lparr>current = Fin (10 / 1000 * exp (- 1)),
      bulb1Brightness = Fin (10 / 1000 * exp (- 1) * 5),
      bulb2Brightness = Fin 0\<rparr>
   \<and> capacitorVoltage scenarioC (Fin (1 / 10)) = Fin (10 * (1 - exp (- 1)))"
  using rc_law [of scenarioC 10 1000 100 "1 / 10"]
  by (simp add: scenarioC_def)

lemma rc_current_with:
  assumes "isSwitchClosed state"
    and "voltage state = Fin v"
    and "resistance1 state = Fin r" and "0 < r"
    and "capacitance state = Fin c" and "0 < c"
  shows "current (physics_with mexp RcDelay state (Fin t)) =
           js_mul (Fin (v / r)) (mexp (Fin (- t / (r * (c * (1 / 10 ^ 6))))))"
  using assms by (simp add: physics_with_def physicsBlock_def Let_def)

lemma js_exp64_agrees:
  "- 746 \<le> a \<Longrightarrow> a \<le> 710 \<Longrightarrow> js_exp64 (Fin a) = js_exp (Fin a)"
  by simp

lemma js_exp64_mono:
  assumes "a \<le> b"
  shows "js_le (js_exp64 (Fin a)) (js_exp64 (Fin b))"
  using assms by simp

lemma js_mul_pos_mono:
  assumes "0 < k" and "js_le x y"
  shows "js_le (js_mul (Fin k) x) (js_mul (Fin k) y)"
  using assms by (cases x; cases y) simp_all

text \<open>
  Whatever the implementation of \<^verbatim>\<open>Math.exp\<close>, as long as it is non-decreasing, the
  rc-delay current does not increase with the elapsed time.
\<close>

lemma rc_current_antimono:
  assumes "isSwitchClosed state"
    and "voltage state = Fin v" and "0 < v"
    and "resistance1 state = Fin r" and "0 < r"
    and "capacitance state = Fin c" and "0 < c"
    and "t1 \<le> t2"
    and mono: "\<And>a b. a \<le> b \<Longrightarrow> js_le (mexp (Fin a)) (mexp (Fin b))"
  shows "js_le (current (physics_with mexp RcDelay state (Fin t2)))
               (current (physics_with mexp RcDelay state (Fin t1)))"
proof -
  let ?tau = "r * (c * (1 / 10 ^ 6))"
  have "0 < ?tau" using assms by simp
  with \<open>t1 \<le> t2\<close> have "- t2 / ?tau \<le> - t1 / ?tau"
    by (simp add: divide_right_mono)
  then have "js_le (mexp (Fin (- t2 / ?tau))) (mexp (Fin (- t1 / ?tau)))"
    by (rule mono)
  moreover have "0 < v / r" using assms by simp
  ultimately have "js_le (js_mul (Fin (v / r)) (mexp (Fin (- t2 / ?tau))))
                         (js_mul (Fin (v / r)) (mexp (Fin (- t1 / ?tau))))"
    by (rule js_mul_pos_mono [rotated])
  then show ?thesis
    using assms(1,2,4-7) by (simp only: rc_current_with)
qed

text \<open>
  With the exponential of binary64 the decrease is not strict. In scenario C
  (\<open>tau = 0.1\<close>) the argument of \<^verbatim>\<open>Math.exp\<close> is -1000 at 100 seconds and -2000 at
  200 seconds, the exponential has underflowed, and the current is exactly 0 at both
  times.
\<close>

theorem rc_current_not_strictly_decreasing:
  "current (physics_with js_exp64 RcDelay scenarioC (Fin 100)) = Fin 0
   \<and> current (physics_with js_exp64 RcDelay scenarioC (Fin 200)) = Fin 0
   \<and> \<not> js_lt (current (physics_with js_exp64 RcDelay scenarioC (Fin 200)))
              (current (physics_with js_exp64 RcDelay scenarioC (Fin 100)))"
  by (simp add: physics_with_def physicsBlock_def Let_def scenarioC_def)

lemma js_le_not_js_lt: "js_le a b \<Longrightarrow> \<not> js_lt b a"
  by (cases a; cases b) simp_all

text \<open>
  C8, as the code has it. rc-delay topology, switch closed, fixed positive voltage,
  resistance1 and capacitance, with the exponential of binary64: the current never
  increases with the elapsed time (for \<open>0 \<le> t1 < t2\<close> the current at \<open>t1\<close> is not
  less than the current at \<open>t2\<close>). When moreover the three values are of moderate
  magnitude, so that nothing overflows, the current is finite at every \<open>t \<ge> 0\<close> and
  tends to 0 as the elapsed time tends to infinity.
\<close>

theorem rc_current_nonincreasing:
  assumes "isSwitchClosed state"
    and "voltage state = Fin v" and "0 < v"
    and "resistance1 state = Fin r" and "0 < r"
    and "capacitance state = Fin c" and "0 < c"
    and "0 \<le> t1" and "t1 < t2"
  shows "\<not> js_lt (current (physics_with js_exp64 RcDelay state (Fin t1)))
                 (current (physics_with js_exp64 RcDelay state (Fin t2)))
       \<and> (moderate v \<and> moderate r \<and> moderate c \<longrightarrow>
            (\<exists>f. (\<forall>t\<ge>0. current (physics_with js_exp64 RcDelay state (Fin t)) = Fin (f t))
                 \<and> (f \<longlongrightarrow> 0) at_top))"
proof -
  let ?tau = "r * (c * (1 / 10 ^ 6))"
  let ?f = "\<lambda>t. if - t / ?tau < - 746 then 0 else (v / r) * exp (- t / ?tau)"
  have tau: "0 < ?tau" using assms by simp
  have "js_le (current (physics_with js_exp64 RcDelay state (Fin t2)))
              (current (physics_with js_exp64 RcDelay state (Fin t1)))"
    using assms(1-7) less_imp_le [OF \<open>t1 < t2\<close>] js_exp64_mono
    by (rule rc_current_antimono)
  then have never: "\<not> js_lt (current (physics_with js_exp64 RcDelay state (Fin t1)))
                            (current (physics_with js_exp64 RcDelay state (Fin t2)))"
    by (rule js_le_not_js_lt)
  have cur: "current (physics_with js_exp64 RcDelay state (Fin t)) = Fin (?f t)"
    if "0 \<le> t" for t
  proof -
    from that tau have "- t / ?tau \<le> 0"
      by (simp add: divide_nonpos_pos)
    then have "\<not> 710 < - t / ?tau" by simp
    then show ?thesis
      using assms(1,2,4-7) by (simp only: rc_current_with) simp
  qed
  have "eventually (\<lambda>t. 746 * ?tau < t) at_top"
    by (rule eventually_gt_at_top)
  then have "eventually (\<lambda>t. ?f t = 0) at_top"
  proof (rule eventually_mono)
    fix t assume "746 * ?tau < t"
    with tau have "- t / ?tau < - 746" by (simp add: field_simps)
    then show "?f t = 0" by simp
  qed
  then have lim: "(?f \<longlongrightarrow> 0) at_top"
    by (rule tendsto_eventually)
  have "(\<forall>t\<ge>0. current (physics_with js_exp64 RcDelay state (Fin t)) = Fin (?f t))
        \<and> (?f \<longlongrightarrow> 0) at_top"
    using cur lim by blast
  then have "\<exists>f. (\<forall>t\<ge>0. current (physics_with js_exp64 RcDelay state (Fin t)) = Fin (f t))
                \<and> (f \<longlongrightarrow> 0) at_top"
    by (rule exI [where x = ?f])
  with never show ?thesis by blast
qed

theorem rc_current_nonincreasing_witness:
  "\<not> js_lt (current (physics_with js_exp64 RcDelay scenarioC (Fin 1)))
           (current (physics_with js_exp64 RcDelay scenarioC (Fin 100)))
   \<and> (\<exists>f. (\<forall>t\<ge>0. current (physics_with js_exp64 RcDelay scenarioC (Fin t)) = Fin (f t))
          \<and> (f \<longlongrightarrow> 0) at_top)"
  using rc_current_nonincreasing [of scenarioC 10 1000 100 1 100]
  by (simp add: scenarioC_def moderate_def)


section \<open>Validation\<close>

text \<open>
  The physics block checks nothing: with the switch closed an invalid configuration
  is evaluated like any other. In the parallel circuit of scenario B with
  \<open>resistance1 = 0\<close> the quotient \<open>V / R1\<close> is computed, and the result holds
  \<^verbatim>\<open>Infinity\<close> where a rejection was expected.
\<close>

theorem invalid_configuration_evaluated:
  "InvalidConfiguration (scenarioB\<lparr>resistance1 := Fin 0\<rparr>)
   \<and> physics Parallel (scenarioB\<lparr>resistance1 := Fin 0\<rparr>) (Fin 0) =
       \<lparr>current = PInf, bulb1Brightness = PInf, bulb2Brightness = Fin (5 / 100)\<rparr>"
  by (simp add: InvalidConfiguration_def scenarioB_def physics_def physics_with_def
        physicsBlock_def Let_def)

lemma invalid_series_evaluated:
  "physics Series (scenarioA\<lparr>resistance1 := Fin 0, resistance2 := Fin 0\<rparr>) (Fin 0) =
     \<lparr>current = PInf, bulb1Brightness = NaN, bulb2Brightness = NaN\<rparr>"
  by (simp add: scenarioA_def physics_def physics_with_def physicsBlock_def Let_def)

lemma js_div_zero_not_finite: "\<not> isFinite (js_div x (Fin 0))"
  by (cases x) simp_all

lemma js_add_not_finite:
  "\<not> isFinite x \<or> \<not> isFinite y \<Longrightarrow> \<not> isFinite (js_add x y)"
  by (cases x; cases y) simp_all

lemma js_mul_not_finite: "\<not> isFinite x \<Longrightarrow> \<not> isFinite (js_mul x y)"
  by (cases x; cases y) simp_all

text \<open>
  C7, as the code has it. No validation takes place and no configuration is rejected:
  with the switch closed the evaluator is asked to divide by zero and does. Whenever
  a divisor of the selected topology is 0 (\<open>R1 + R2\<close> in series, \<open>R1\<close> or \<open>R2\<close> in
  parallel, \<open>R1\<close> in rc-delay), the current it returns is not a finite number (it is
  \<^verbatim>\<open>Infinity\<close>, \<^verbatim>\<open>-Infinity\<close> or \<^verbatim>\<open>NaN\<close>); this for every voltage, capacitance
  and elapsed time and every implementation of \<^verbatim>\<open>Math.exp\<close>.
\<close>

theorem zero_divisor_evaluated:
  assumes "isSwitchClosed state"
  shows "(js_add (resistance1 state) (resistance2 state) = Fin 0 \<longrightarrow>
            \<not> isFinite (current (physics_with mexp Series state simTime)))
       \<and> (resistance1 state = Fin 0 \<or> resistance2 state = Fin 0 \<longrightarrow>
            \<not> isFinite (current (physics_with mexp Parallel state simTime)))
       \<and> (resistance1 state = Fin 0 \<longrightarrow>
            \<not> isFinite (current (physics_with mexp RcDelay state simTime)))"
proof (intro conjI impI)
  assume "js_add (resistance1 state) (resistance2 state) = Fin 0"
  with assms show "\<not> isFinite (current (physics_with mexp Series state simTime))"
    by (simp add: physics_with_def physicsBlock_def Let_def js_div_zero_not_finite)
next
  assume "resistance1 state = Fin 0 \<or> resistance2 state = Fin 0"
  then have "\<not> isFinite (js_div (voltage state) (resistance1 state))
           \<or> \<not> isFinite (js_div (voltage state) (resistance2 state))"
    by (auto simp: js_div_zero_not_finite)
  then have "\<not> isFinite (js_add (js_div (voltage state) (resistance1 state))
                                  (js_div (voltage state) (resistance2 state)))"
    by (rule js_add_not_finite)
  with assms show "\<not> isFinite (current (physics_with mexp Parallel state simTime))"
    by (simp add: physics_with_def physicsBlock_def Let_def)
next
  assume "resistance1 state = Fin 0"
  with assms show "\<not> isFinite (current (physics_with mexp RcDelay state simTime))"
    by (simp add: physics_with_def physicsBlock_def Let_def js_div_zero_not_finite
          js_mul_not_finite)
qed

theorem zero_divisor_evaluated_witness:
  "\<not> isFinite (current (physics Series
        (scenarioA\<lparr>resistance1 := Fin 0, resistance2 := Fin 0\<rparr>) (Fin 0)))
   \<and> \<not> isFinite (current (physics Parallel
        (scenarioA\<lparr>resistance1 := Fin 0, resistance2 := Fin 0\<rparr>) (Fin 0)))
   \<and> \<not> isFinite (current (physics RcDelay
        (scenarioA\<lparr>resistance1 := Fin 0, resistance2 := Fin 0\<rparr>) (Fin 0)))"
  using zero_divisor_evaluated
    [of "scenarioA\<lparr>resistance1 := Fin 0, resistance2 := Fin 0\<rparr>" js_exp "Fin 0"]
  by (simp add: scenarioA_def physics_def)


section \<open>The animation phase\<close>

text \<open>
  C5. The derived quantities and the capacitor voltage are a function of the mode, the
  configuration and the elapsed time alone: two evaluations of the physics block and of
  the capacitor-voltage expression in scopes that agree on these three give the same
  results, whatever the animation phase \<^verbatim>\<open>offset\<close> is in either scope.
\<close>

theorem derived_state_noninterference:
  assumes "scope_mode sc = scope_mode sc'"
    and "scope_state sc = scope_state sc'"
    and "scope_simTime sc = scope_simTime sc'"
  shows "physicsBlock mexp sc = physicsBlock mexp sc'
       \<and> capacitorVoltageExpr mexp sc = capacitorVoltageExpr mexp sc'"
  using assms by (simp add: physicsBlock_def capacitorVoltageExpr_def)

theorem derived_state_noninterference_witness:
  "physicsBlock js_exp64
     \<lparr>scope_mode = RcDelay, scope_state = scenarioC, scope_simTime = Fin (1 / 10),
      scope_offset = Fin 0\<rparr>
   = physicsBlock js_exp64
     \<lparr>scope_mode = RcDelay, scope_state = scenarioC, scope_simTime = Fin (1 / 10),
      scope_offset = Fin (- (39 / 25))\<rparr>
   \<and> capacitorVoltageExpr js_exp64
     \<lparr>scope_mode = RcDelay, scope_state = scenarioC, scope_simTime = Fin (1 / 10),
      scope_offset = Fin 0\<rparr>
   = capacitorVoltageExpr js_exp64
     \<lparr>scope_mode = RcDelay, scope_state = scenarioC, scope_simTime = Fin (1 / 10),
      scope_offset = Fin (- (39 / 25))\<rparr>"
  using derived_state_noninterference
    [of "\<lparr>scope_mode = RcDelay, scope_state = scenarioC, scope_simTime = Fin (1 / 10),
          scope_offset = Fin 0\<rparr>"
        "\<lparr>scope_mode = RcDelay, scope_state = scenarioC, scope_simTime = Fin (1 / 10),
          scope_offset = Fin (- (39 / 25))\<rparr>" js_exp64]
  by simp

lemma rem_1000_nonpos:
  fixes a :: real
  assumes "a \<le> 0"
  shows "- 1000 < a - 1000 * of_int (trunc (a / 1000))
       \<and> a - 1000 * of_int (trunc (a / 1000)) \<le> 0"
proof (cases "a = 0")
  case True
  then show ?thesis by (simp add: trunc_def)
next
  case False
  with assms have "a / 1000 < 0" by simp
  then have t: "trunc (a / 1000) = \<lceil>a / 1000\<rceil>" by (simp add: trunc_def)
  have "of_int \<lceil>a / 1000\<rceil> - 1 < a / 1000" "a / 1000 \<le> of_int \<lceil>a / 1000\<rceil>"
    by linarith+
  then show ?thesis unfolding t by linarith
qed

lemma js_rem_examples:
  "js_rem (Fin (- 1005)) (Fin 1000) = Fin (- 5)"
  "js_rem (Fin (- 1000)) (Fin 1000) = Fin 0"
  "js_rem (Fin 1005) (Fin 1000) = Fin 5"
  "js_rem (Fin (- 6)) (Fin 1000) = Fin (- 6)"
  by (simp_all add: trunc_def)

lemma animate_bounded:
  assumes "speed state cur = Fin s" and "0 \<le> s" and "s \<le> 10"
    and "- 1000 < x" and "x \<le> 0"
  shows "\<exists>y. animate state cur (Fin x) = Fin y \<and> - 1000 < y \<and> y \<le> 0"
  using assms rem_1000_nonpos [of "x - s"]
  by (simp add: animate_def js_sub_def)

lemma frames_bounded:
  assumes "\<forall>p \<in> set ps. \<exists>s. frameSpeed p = Fin s \<and> 0 \<le> s \<and> s \<le> 10"
    and "- 1000 < x" and "x \<le> 0"
  shows "\<exists>y. frames (Fin x) ps = Fin y \<and> - 1000 < y \<and> y \<le> 0"
  using assms
proof (induction ps arbitrary: x)
  case Nil
  then show ?case by simp
next
  case (Cons p ps)
  obtain mode state simTime where p: "p = (mode, state, simTime)"
    by (cases p) auto
  from Cons.prems(1) p obtain s
    where s: "speed state (current (physics mode state simTime)) = Fin s"
      "0 \<le> s" "s \<le> 10"
    by auto
  from animate_bounded [OF s Cons.prems(2,3)] obtain y
    where y: "animate state (current (physics mode state simTime)) (Fin x) = Fin y"
      "- 1000 < y" "y \<le> 0"
    by blast
  from Cons.prems(1)
  have "\<forall>p \<in> set ps. \<exists>s. frameSpeed p = Fin s \<and> 0 \<le> s \<and> s \<le> 10"
    by simp
  from Cons.IH [OF this y(2,3)] show ?case
    by (simp add: p y(1))
qed

lemma fin_range:
  "0 \<le> a \<Longrightarrow> a \<le> 10 \<Longrightarrow> \<exists>s. Fin a = Fin s \<and> 0 \<le> s \<and> s \<le> 10"
  by blast

lemma frame_speeds:
  "frameSpeed (Series, scenarioA, Fin 0) = Fin (3 / 50)"
  "frameSpeed (Parallel, scenarioB, Fin 0) = Fin (3 / 2)"
  "frameSpeed (RcDelay, scenarioC\<lparr>isSwitchClosed := False\<rparr>, Fin 5) = Fin 0"
  "frameSpeed (RcDelay, scenarioC, Fin 0) = Fin (1 / 50)"
  by (simp_all add: speed_def physics_def physics_with_def physicsBlock_def Let_def js_min_def
        scenarioA_def scenarioB_def scenarioC_def)

lemma frames_example:
  "frames (Fin 0) [(Series, scenarioA, Fin 0), (Parallel, scenarioB, Fin 0),
                   (RcDelay, scenarioC\<lparr>isSwitchClosed := False\<rparr>, Fin 5)]
   = Fin (- (39 / 25))"
  by (simp add: animate_def js_sub_def trunc_def speed_def physics_def physics_with_def physicsBlock_def Let_def js_min_def
        scenarioA_def scenarioB_def scenarioC_def)

text \<open>
  With finite arithmetic taken exact, the hypothesis on the speeds is met by every
  frame of a valid configuration with a non-negative voltage.
\<close>

lemma frameSpeed_range:
  assumes "voltage state = Fin v" and "0 \<le> v"
    and "resistance1 state = Fin r1" and "0 < r1"
    and "resistance2 state = Fin r2" and "0 < r2"
    and "capacitance state = Fin c" and "0 < c"
  shows "\<exists>s. frameSpeed (mode, state, Fin t) = Fin s \<and> 0 \<le> s \<and> s \<le> 10"
  using assms
  by (cases mode) (auto simp: speed_def physics_def physics_with_def physicsBlock_def Let_def js_min_def)

text \<open>
  C9. Starting from offset 0, whenever the speed of every frame lies in \<open>[0, 10]\<close>,
  the offset after each update (after the first \<open>n\<close> frames, for every \<open>n\<close>) is a
  finite number strictly between -1000 and 1000, and indeed in \<open>(-1000, 0]\<close>: the
  dividend \<open>offset - speed\<close> is never positive and \<^verbatim>\<open>%\<close> keeps its sign.
\<close>

theorem offset_bounded:
  assumes "\<forall>p \<in> set ps. \<exists>s. frameSpeed p = Fin s \<and> 0 \<le> s \<and> s \<le> 10"
    and "n \<le> length ps"
  shows "\<exists>y. frames (Fin 0) (take n ps) = Fin y \<and> - 1000 < y \<and> y < 1000 \<and> y \<le> 0"
proof -
  have "\<forall>p \<in> set (take n ps). \<exists>s. frameSpeed p = Fin s \<and> 0 \<le> s \<and> s \<le> 10"
    using assms(1) by (meson in_set_takeD)
  from frames_bounded [OF this, of 0] show ?thesis
    by fastforce
qed

theorem offset_bounded_witness:
  "\<exists>y. frames (Fin 0)
          (take 3 [(Series, scenarioA, Fin 0), (Parallel, scenarioB, Fin 0),
                   (RcDelay, scenarioC\<lparr>isSwitchClosed := False\<rparr>, Fin 5),
                   (RcDelay, scenarioC, Fin 0)]) = Fin y
       \<and> - 1000 < y \<and> y < 1000 \<and> y \<le> 0"
proof -
  have h: "\<forall>p \<in> set [(Series, scenarioA, Fin 0), (Parallel, scenarioB, Fin 0),
                       (RcDelay, scenarioC\<lparr>isSwitchClosed := False\<rparr>, Fin 5),
                       (RcDelay, scenarioC, Fin 0)].
             \<exists>s. frameSpeed p = Fin s \<and> 0 \<le> s \<and> s \<le> 10"
    by (simp only: list.set ball_simps frame_speeds simp_thms)
       (intro conjI fin_range; simp)
  show ?thesis
    using offset_bounded [OF h, of 3] by simp
qed

end
